theory Spec2Isabelle
  imports Main "HOL-Library.AList" "HOL-Library.Char_ord" "HOL-Library.List_Lexorder"
    "HOL-Library.Multiset"
begin

section \<open>The object index of the clif documentation domain\<close>

text \<open>
  The domain keeps one dictionary, \<^verbatim>\<open>data['objects']\<close>, from an object's full name to the
  pair (defining document, object type). A Python dictionary holds every key once and
  iterates in insertion order, so it is an association list whose keys are distinct;
  \<open>dict_inv\<close> is that invariant. Strings are the text strings of the host: a \<open>char\<close> is
  a code point below 256, and the character classes below are those of such strings.
\<close>

type_synonym index = "(string \<times> (string \<times> string)) list"

definition dict_inv :: "('k \<times> 'v) list \<Rightarrow> bool" where
  "dict_inv d = distinct (map fst d)"

definition has_key :: "'k \<Rightarrow> ('k \<times> 'v) list \<Rightarrow> bool" where
  \<comment> \<open>\<^verbatim>\<open>k in d\<close>\<close>
  "has_key k d = (map_of d k \<noteq> None)"

datatype py_error = KeyError | IndexError

definition py_del :: "'k \<Rightarrow> ('k \<times> 'v) list \<Rightarrow> py_error + ('k \<times> 'v) list" where
  \<comment> \<open>\<^verbatim>\<open>del d[k]\<close> raises KeyError on a missing key\<close>
  "py_del k d = (if has_key k d then Inr (AList.delete k d) else Inl KeyError)"

subsection \<open>CraneliftDomain.clear_doc and merge_domaindata\<close>

text \<open>
  \<^verbatim>\<open>for fullname, (fn, _l) in list(self.data['objects'].items()):
      if fn == docname: del self.data['objects'][fullname]\<close>
  The loop runs over a snapshot of the items and deletes from the live dictionary.
\<close>

fun clear_doc_loop :: "string \<Rightarrow> index \<Rightarrow> index \<Rightarrow> py_error + index" where
  "clear_doc_loop docname [] objs = Inr objs"
| "clear_doc_loop docname ((fullname, (fn, l)) # items) objs =
     (if fn = docname
      then (case py_del fullname objs of
              Inl e \<Rightarrow> Inl e
            | Inr objs' \<Rightarrow> clear_doc_loop docname items objs')
      else clear_doc_loop docname items objs)"

definition clear_doc :: "string \<Rightarrow> index \<Rightarrow> py_error + index" where
  "clear_doc docname objs = clear_doc_loop docname objs objs"

text \<open>
  \<^verbatim>\<open>for fullname, (fn, objtype) in otherdata['objects'].items():
      if fn in docnames: self.data['objects'][fullname] = (fn, objtype)\<close>
  Assigning to an existing key keeps its place; a new key goes to the end.
\<close>

fun merge_domaindata :: "string list \<Rightarrow> index \<Rightarrow> index \<Rightarrow> index" where
  "merge_domaindata docnames [] objs = objs"
| "merge_domaindata docnames ((fullname, (fn, objtype)) # other) objs =
     (if fn \<in> set docnames
      then merge_domaindata docnames other (AList.update fullname (fn, objtype) objs)
      else merge_domaindata docnames other objs)"

subsection \<open>Cross-reference resolution\<close>

text \<open>
  \<open>make_refnode\<close> (of the documentation host) and \<open>role_for_objtype\<close> (inherited from the
  host's domain class) are not part of this code; they are parameters. The arguments of
  \<open>make_refnode\<close> are: builder, source document, target document, target id, content
  node, title.
\<close>

definition resolve_xref ::
  "('b \<Rightarrow> string \<Rightarrow> string \<Rightarrow> string \<Rightarrow> 'c \<Rightarrow> string \<Rightarrow> 'r) \<Rightarrow> index \<Rightarrow>
     string \<Rightarrow> 'b \<Rightarrow> string \<Rightarrow> 'c \<Rightarrow> 'r option" where
  "resolve_xref make_refnode objs fromdocname builder target contnode =
     (if \<not> has_key target objs then None
      else (case map_of objs target of
              None \<Rightarrow> None
            | Some obj \<Rightarrow>
                Some (make_refnode builder fromdocname (fst obj)
                        (snd obj @ ''-'' @ target) contnode target)))"

definition resolve_any_xref ::
  "('b \<Rightarrow> string \<Rightarrow> string \<Rightarrow> string \<Rightarrow> 'c \<Rightarrow> string \<Rightarrow> 'r) \<Rightarrow> (string \<Rightarrow> string) \<Rightarrow>
     index \<Rightarrow> string \<Rightarrow> 'b \<Rightarrow> string \<Rightarrow> 'c \<Rightarrow> (string \<times> 'r) list" where
  "resolve_any_xref make_refnode role_for_objtype objs fromdocname builder target contnode =
     (if \<not> has_key target objs then []
      else (case map_of objs target of
              None \<Rightarrow> []
            | Some obj \<Rightarrow>
                [(''clif:'' @ role_for_objtype (snd obj),
                  make_refnode builder fromdocname (fst obj)
                    (snd obj @ ''-'' @ target) contnode target)]))"

subsection \<open>ClifObject.add_target_and_index\<close>

text \<open>
  The directive object (\<open>self\<close>) and the state it changes. \<open>document_ids\<close> are the keys of
  \<^verbatim>\<open>self.state.document.ids\<close>, \<open>inv\<close> is the objects index, \<open>reported\<close> the warnings given
  to the reporter (message and line), \<open>index_entries\<close> the entries of the index node.
  \<open>get_index_text\<close> is the hook of the subclass, \<open>doc2path\<close> belongs to the build
  environment; both are parameters.
\<close>

record clif_object =
  objtype :: string
  names :: "string list"
  docname :: string
  lineno :: nat

record signode =
  sig_names :: "string list"
  sig_ids :: "string list"
  sig_first :: "bool option"

record directive_state =
  document_ids :: "string set"
  inv :: index
  reported :: "(string \<times> nat) list"
  node :: signode
  index_entries :: "(string \<times> string \<times> string \<times> string) list"

definition ClifType_get_index_text :: "string \<Rightarrow> string" where
  "ClifType_get_index_text name = name @ '' (IR type)''"

definition ClifInst_get_index_text :: "string \<Rightarrow> string" where
  "ClifInst_get_index_text name = name"

definition duplicate_warning :: "(string \<Rightarrow> string) \<Rightarrow> string \<Rightarrow> string \<Rightarrow> string" where
  "duplicate_warning doc2path name other_doc =
     ''duplicate Cranelift object description of '' @ name @ '', '' @
     ''other instance in '' @ doc2path other_doc"

text \<open>
  \<^verbatim>\<open>note_explicit_target(signode)\<close> of the document enters the node under its last id,
  which is the target name appended just before.
\<close>

definition register_target :: "(string \<Rightarrow> string) \<Rightarrow> clif_object \<Rightarrow> string \<Rightarrow> string \<Rightarrow>
    directive_state \<Rightarrow> directive_state" where
  "register_target doc2path self name targetname st =
     (let nd = (node st)\<lparr>sig_names := sig_names (node st) @ [targetname],
                          sig_ids := sig_ids (node st) @ [targetname],
                          sig_first := Some (names self = [])\<rparr>;
          st1 = st\<lparr>node := nd, document_ids := insert targetname (document_ids st)\<rparr>;
          st2 = (case map_of (inv st1) name of
                   Some other \<Rightarrow>
                     st1\<lparr>reported := reported st1 @
                           [(duplicate_warning doc2path name (fst other), lineno self)]\<rparr>
                 | None \<Rightarrow> st1)
      in st2\<lparr>inv := AList.update name (docname self, objtype self) (inv st2)\<rparr>)"

definition add_target_and_index :: "(string \<Rightarrow> string) \<Rightarrow> (string \<Rightarrow> string) \<Rightarrow> clif_object \<Rightarrow>
    string \<Rightarrow> directive_state \<Rightarrow> directive_state" where
  "add_target_and_index get_index_text doc2path self name st =
     (let targetname = objtype self @ ''-'' @ name;
          st' = (if targetname \<notin> document_ids st
                 then register_target doc2path self name targetname st
                 else st);
          indextext = get_index_text name
      in if indextext \<noteq> []
         then st'\<lparr>index_entries := index_entries st' @
                    [(''single'', indextext, targetname, [])]\<rparr>
         else st')"

section \<open>Signatures\<close>

text \<open>
  The children appended to the output node of a signature: \<^verbatim>\<open>nodes.emphasis(p, p)\<close>,
  \<^verbatim>\<open>addnodes.desc_name(p, p)\<close> and \<^verbatim>\<open>nodes.Text(t)\<close>. The output node is the list of
  its children; \<^verbatim>\<open>signode += n\<close> appends.
\<close>

datatype doc_node = Emphasis string | DescName string | Text string

definition backslash :: char where
  "backslash = CHR 0x5C"

definition is_space :: "char \<Rightarrow> bool" where
  \<comment> \<open>the whitespace of \<^verbatim>\<open>\s\<close> and of \<^verbatim>\<open>split(None)\<close> on a text string, below 256: tab,
      newline, vertical tab, form feed, return, the four separators 0x1C to 0x1F, space,
      next line 0x85 and no-break space 0xA0\<close>
  "is_space c =
     (c \<in> {CHR 0x09, CHR 0x0A, CHR 0x0B, CHR 0x0C, CHR 0x0D, CHR 0x1C, CHR 0x1D, CHR 0x1E,
            CHR 0x1F, CHR 0x20, CHR 0x85, CHR 0xA0})"

definition is_upper :: "char \<Rightarrow> bool" where
  \<comment> \<open>the character class \<^verbatim>\<open>[A-Z]\<close>\<close>
  "is_upper c = (c \<in> set ''ABCDEFGHIJKLMNOPQRSTUVWXYZ'')"

definition is_word :: "char \<Rightarrow> bool" where
  \<comment> \<open>the character class \<^verbatim>\<open>\w\<close> of a text pattern, below 256: \<^verbatim>\<open>[a-zA-Z0-9_]\<close> and the
      letters and numeric characters of the upper half\<close>
  "is_word c =
     (c \<in> set ''abcdefghijklmnopqrstuvwxyzABCDEFGHIJKLMNOPQRSTUVWXYZ0123456789_'' \<or>
      c \<in> {CHR 0xAA, CHR 0xB2, CHR 0xB3, CHR 0xB5, CHR 0xB9, CHR 0xBA, CHR 0xBC, CHR 0xBD,
            CHR 0xBE} \<or>
      (0xC0 \<le> (of_char c :: nat) \<and> (of_char c :: nat) \<noteq> 0xD7 \<and> (of_char c :: nat) \<noteq> 0xF7))"

subsection \<open>parse_type\<close>

text \<open>
  \<^verbatim>\<open>typevar = re.compile('(\%[A-Z])')\<close>; \<^verbatim>\<open>typevar.split(name)\<close> cuts \<open>name\<close> at the
  non-overlapping matches found from left to right and, the pattern being one group,
  puts each match between the pieces around it. \<open>seg\<close> is the piece read so far.
\<close>

fun typevar_split_from :: "string \<Rightarrow> string \<Rightarrow> string list" where
  "typevar_split_from seg [] = [seg]"
| "typevar_split_from seg [c] = [seg @ [c]]"
| "typevar_split_from seg (c # d # rest) =
     (if c = CHR ''%'' \<and> is_upper d
      then seg # [c, d] # typevar_split_from [] rest
      else typevar_split_from (seg @ [c]) (d # rest))"

definition typevar_split :: "string \<Rightarrow> string list" where
  "typevar_split name = typevar_split_from [] name"

text \<open>
  The loop of \<open>parse_type\<close> over the parts, with the output node and \<open>re_str\<close> as state.
  \<open>escape\<close> is \<^verbatim>\<open>re.escape\<close> of the regular expression library, a parameter.
\<close>

fun parse_type_loop :: "(string \<Rightarrow> string) \<Rightarrow> string list \<Rightarrow> doc_node list \<Rightarrow> string \<Rightarrow>
    string \<times> doc_node list" where
  "parse_type_loop escape [] signode re_str = (re_str, signode)"
| "parse_type_loop escape (part # parts) signode re_str =
     (if part = [] then parse_type_loop escape parts signode re_str
      else if length part = 2 \<and> part ! 0 = CHR ''%''
      then parse_type_loop escape parts
             (signode @ [Emphasis [part ! 1]]) (re_str @ [backslash, CHR ''w'', CHR ''+''])
      else parse_type_loop escape parts
             (signode @ [DescName part]) (re_str @ escape part))"

definition parse_type :: "(string \<Rightarrow> string) \<Rightarrow> string \<Rightarrow> doc_node list \<Rightarrow>
    string \<times> doc_node list" where
  \<comment> \<open>returns \<open>re_str\<close> and the output node\<close>
  "parse_type escape name signode = parse_type_loop escape (typevar_split name) signode []"

subsection \<open>The patterns parse_type returns, as regular expressions\<close>

text \<open>
  The part of the regular expression syntax that \<open>parse_type\<close> can produce: a character
  that is no metacharacter stands for itself, a backslash before a character that is
  neither a letter nor a digit makes it literal, and \<^verbatim>\<open>\w+\<close> is one or more word
  characters. \<open>re_compile\<close> gives \<open>None\<close> outside this part.
\<close>

datatype re_item = Lit char | WordPlus

definition is_alnum :: "char \<Rightarrow> bool" where
  "is_alnum c = (c \<in> set ''abcdefghijklmnopqrstuvwxyzABCDEFGHIJKLMNOPQRSTUVWXYZ0123456789'')"

definition is_meta :: "char \<Rightarrow> bool" where
  "is_meta c = (c \<in> set ''.^$*+?{}[]|()'' \<or> c = backslash)"

fun re_compile :: "string \<Rightarrow> re_item list option" where
  "re_compile [] = Some []"
| "re_compile (c # cs) =
     (if c = backslash
      then (case cs of
              [] \<Rightarrow> None
            | d # ds \<Rightarrow>
                if d = CHR ''w''
                then (case ds of
                        [] \<Rightarrow> None
                      | e # es \<Rightarrow> if e = CHR ''+'' then map_option ((#) WordPlus) (re_compile es)
                                  else None)
                else if is_alnum d then None
                else map_option ((#) (Lit d)) (re_compile ds))
      else if is_meta c then None
      else map_option ((#) (Lit c)) (re_compile cs))"

fun items_match :: "re_item list \<Rightarrow> string \<Rightarrow> bool" where
  "items_match [] s = (s = [])"
| "items_match (Lit c # its) s = (case s of [] \<Rightarrow> False | x # xs \<Rightarrow> x = c \<and> items_match its xs)"
| "items_match (WordPlus # its) s =
     list_ex (\<lambda>n. list_all is_word (take n s) \<and> items_match its (drop n s)) [1..<Suc (length s)]"

definition re_fullmatch :: "string \<Rightarrow> string \<Rightarrow> bool" where
  \<comment> \<open>the compiled pattern matches the whole string\<close>
  "re_fullmatch pat s = (case re_compile pat of None \<Rightarrow> False | Some its \<Rightarrow> items_match its s)"

subsection \<open>ClifInst.handle_signature and parse_params\<close>

text \<open>
  \<^verbatim>\<open>sep_equal = re.compile('\s*=\s*')\<close> and \<^verbatim>\<open>sep_comma = re.compile('\s*,\s*')\<close>. The
  leftmost match of such a pattern begins where the run of whitespace before the first
  separator character begins and takes all whitespace after that character.
  \<open>split_once\<close> gives the text before and after that match.
\<close>

definition rstrip_space :: "string \<Rightarrow> string" where
  "rstrip_space s = rev (dropWhile is_space (rev s))"

definition split_once :: "char \<Rightarrow> string \<Rightarrow> (string \<times> string) option" where
  "split_once c s =
     (if c \<in> set s
      then Some (rstrip_space (takeWhile (\<lambda>x. x \<noteq> c) s),
                 dropWhile is_space (tl (dropWhile (\<lambda>x. x \<noteq> c) s)))
      else None)"

definition sep_equal_split1 :: "string \<Rightarrow> string list" where
  \<comment> \<open>\<^verbatim>\<open>re.split(sep_equal, sig, 1)\<close>\<close>
  "sep_equal_split1 sig =
     (case split_once CHR ''='' sig of None \<Rightarrow> [sig] | Some (a, b) \<Rightarrow> [a, b])"

function sep_comma_split :: "string \<Rightarrow> string list" where
  \<comment> \<open>\<^verbatim>\<open>sep_comma.split(s)\<close>\<close>
  "sep_comma_split s =
     (if CHR '','' \<in> set s
      then rstrip_space (takeWhile (\<lambda>x. x \<noteq> CHR '','') s) #
           sep_comma_split (dropWhile is_space (tl (dropWhile (\<lambda>x. x \<noteq> CHR '','') s)))
      else [s])"
  by pat_completeness auto
termination
proof (relation "measure length")
  fix s :: string
  assume "CHR '','' \<in> set s"
  then have "dropWhile (\<lambda>x. x \<noteq> CHR '','') s \<noteq> []"
    by simp
  then have "length (tl (dropWhile (\<lambda>x. x \<noteq> CHR '','') s)) < length s"
    using length_dropWhile_le [of "\<lambda>x. x \<noteq> CHR '',''" s]
    by (cases "dropWhile (\<lambda>x. x \<noteq> CHR '','') s") simp_all
  moreover have "length (dropWhile is_space (tl (dropWhile (\<lambda>x. x \<noteq> CHR '','') s)))
      \<le> length (tl (dropWhile (\<lambda>x. x \<noteq> CHR '','') s))"
    by (rule length_dropWhile_le)
  ultimately show "(dropWhile is_space (tl (dropWhile (\<lambda>x. x \<noteq> CHR '','') s)), s)
      \<in> measure length"
    by simp
qed simp

declare sep_comma_split.simps [simp del]

definition split_ws1 :: "string \<Rightarrow> string list" where
  \<comment> \<open>\<^verbatim>\<open>name.split(None, 1)\<close>: the first word and, if more than whitespace follows it,
      the rest from its first non-whitespace character on\<close>
  "split_ws1 s =
     (let s1 = dropWhile is_space s
      in if s1 = [] then []
         else (let tok = takeWhile (\<lambda>c. \<not> is_space c) s1;
                   rest = dropWhile is_space (dropWhile (\<lambda>c. \<not> is_space c) s1)
               in if rest = [] then [tok] else [tok, rest]))"

fun parse_params_loop :: "nat \<Rightarrow> string list \<Rightarrow> doc_node list \<Rightarrow> doc_node list" where
  "parse_params_loop i [] signode = signode"
| "parse_params_loop i (p # ps) signode =
     parse_params_loop (i + 1) ps
       ((if i \<noteq> 0 then signode @ [Text '', ''] else signode) @ [Emphasis p])"

definition parse_params :: "string \<Rightarrow> doc_node list \<Rightarrow> doc_node list" where
  "parse_params s signode = parse_params_loop 0 (sep_comma_split s) signode"

definition handle_signature :: "string \<Rightarrow> doc_node list \<Rightarrow> py_error + (string \<times> doc_node list)" where
  \<comment> \<open>returns the name and the output node; \<^verbatim>\<open>parts[0]\<close> of an empty list raises\<close>
  "handle_signature sig signode =
     (let parts = sep_equal_split1 sig;
          (signode1, name) =
             (if length parts = 2
              then (parse_params (parts ! 0) signode @ [Text '' = ''], parts ! 1)
              else (signode, parts ! 0));
          parts2 = split_ws1 name
      in (case parts2 of
            [] \<Rightarrow> Inl IndexError
          | name2 # rest \<Rightarrow>
              (let signode2 = signode1 @ [DescName name2]
               in if length parts2 = 2
                  then Inr (name2, parse_params (parts2 ! 1) (signode2 @ [Text '' '']))
                  else Inr (name2, signode2))))"

subsection \<open>Signatures of the form outs = name ins\<close>

text \<open>
  The signatures the directive is written for. An identifier is a non-empty string with no
  whitespace, comma or equals sign; parameters are a first identifier and further ones,
  each after a comma with any whitespace before and after it. The outs part carries the
  whitespace before and after its equals sign, the ins part the (non-empty) whitespace
  that separates it from the name. \<open>signature_nodes\<close> is the rendering the specification
  gives for such a signature. These definitions follow the specification's words, not the
  code: \<open>handle_signature\<close> above is compared with them.
\<close>

definition ident :: "string \<Rightarrow> bool" where
  "ident s = (s \<noteq> [] \<and> list_all (\<lambda>c. \<not> is_space c \<and> c \<noteq> CHR '','' \<and> c \<noteq> CHR ''='') s)"

definition blank :: "string \<Rightarrow> bool" where
  "blank w = list_all is_space w"

type_synonym params = "string \<times> (string \<times> string \<times> string) list"

fun params_text :: "params \<Rightarrow> string" where
  "params_text (p, more_params) =
     p @ concat (map (\<lambda>(w1, w2, q). w1 @ CHR '','' # w2 @ q) more_params)"

fun params_ok :: "params \<Rightarrow> bool" where
  "params_ok (p, more_params) =
     (ident p \<and> list_all (\<lambda>(w1, w2, q). blank w1 \<and> blank w2 \<and> ident q) more_params)"

fun params_names :: "params \<Rightarrow> string list" where
  "params_names (p, more_params) = p # map (\<lambda>(w1, w2, q). q) more_params"

fun emphasised :: "string list \<Rightarrow> doc_node list" where
  "emphasised [] = []"
| "emphasised [p] = [Emphasis p]"
| "emphasised (p # q # ps) = Emphasis p # Text '', '' # emphasised (q # ps)"

definition signature_text ::
  "(params \<times> string \<times> string) option \<Rightarrow> string \<Rightarrow> (string \<times> params) option \<Rightarrow> string" where
  "signature_text outs_part name ins_part =
     (case outs_part of None \<Rightarrow> [] | Some (ps, w1, w2) \<Rightarrow> params_text ps @ w1 @ CHR ''='' # w2) @
     name @
     (case ins_part of None \<Rightarrow> [] | Some (w3, ps) \<Rightarrow> w3 @ params_text ps)"

definition signature_ok ::
  "(params \<times> string \<times> string) option \<Rightarrow> string \<Rightarrow> (string \<times> params) option \<Rightarrow> bool" where
  "signature_ok outs_part name ins_part =
     ((case outs_part of None \<Rightarrow> True | Some (ps, w1, w2) \<Rightarrow> params_ok ps \<and> blank w1 \<and> blank w2) \<and>
      ident name \<and>
      (case ins_part of None \<Rightarrow> True | Some (w3, ps) \<Rightarrow> w3 \<noteq> [] \<and> blank w3 \<and> params_ok ps))"

definition signature_nodes ::
  "(params \<times> string \<times> string) option \<Rightarrow> string \<Rightarrow> (string \<times> params) option \<Rightarrow> doc_node list" where
  "signature_nodes outs_part name ins_part =
     (case outs_part of None \<Rightarrow> [] | Some (ps, w1, w2) \<Rightarrow> emphasised (params_names ps) @ [Text '' = '']) @
     [DescName name] @
     (case ins_part of None \<Rightarrow> [] | Some (w3, ps) \<Rightarrow> Text '' '' # emphasised (params_names ps))"

section \<open>Documenters\<close>

record operand =
  op_name :: string
  kind_name :: string

record instruction =
  inst_name :: string
  ins :: "operand list"
  outs :: "operand list"

fun py_join :: "string \<Rightarrow> string list \<Rightarrow> string" where
  \<comment> \<open>\<^verbatim>\<open>sep.join(xs)\<close>\<close>
  "py_join sep [] = []"
| "py_join sep [x] = x"
| "py_join sep (x # y # ys) = x @ sep @ py_join sep (y # ys)"

subsection \<open>InstDocumenter.format_signature\<close>

text \<open>
  The loop over \<^verbatim>\<open>inst.ins[1:]\<close>. \<^verbatim>\<open>'...'.format(op.name)\<close> has no replacement field and
  is \<^verbatim>\<open>'...'\<close>; \<^verbatim>\<open>'({}...)'.format(op.name)\<close> puts the name after the parenthesis.
\<close>

fun format_more_ins :: "operand list \<Rightarrow> string \<Rightarrow> string" where
  "format_more_ins [] sig = sig"
| "format_more_ins (op # ops) sig =
     format_more_ins ops
       (if kind_name op = ''variable_args''
        then sig @ ''('' @ op_name op @ ''...)''
        else sig @ '', '' @ op_name op)"

definition format_signature :: "instruction \<Rightarrow> string" where
  "format_signature inst =
     (let sig = inst_name inst;
          sig1 = (if length (outs inst) > 0
                  then py_join '', '' (map op_name (outs inst)) @ '' = '' @ sig
                  else sig)
      in (case ins inst of
            [] \<Rightarrow> sig1
          | op # rest \<Rightarrow>
              (let sig2 = sig1 @ '' '' @ op_name op;
                   sig3 = (if kind_name op = ''variable_args'' then sig2 @ ''...'' else sig2)
               in format_more_ins rest sig3)))"

subsection \<open>InstGroupDocumenter.add_content\<close>

text \<open>
  \<open>lines\<close> are the lines handed to \<^verbatim>\<open>add_line\<close> so far (those of the inherited
  \<^verbatim>\<open>add_content\<close> first). \<^verbatim>\<open>names.sort()\<close> orders strings by their characters' codes,
  a shorter string before its extensions.
\<close>

definition add_line :: "string \<Rightarrow> string list \<Rightarrow> string list" where
  "add_line line lines = lines @ [line]"

fun add_name_lines :: "index \<Rightarrow> string list \<Rightarrow> string list \<Rightarrow> string list" where
  "add_name_lines indexed [] lines = lines"
| "add_name_lines indexed (name # more_names) lines =
     add_name_lines indexed more_names
       (if has_key name indexed
        then add_line ('':clif:inst:`'' @ name @ ''`'') lines
        else add_line (''``'' @ name @ ''``'') lines)"

definition InstGroupDocumenter_add_content :: "index \<Rightarrow> instruction list \<Rightarrow> string list \<Rightarrow>
    string list" where
  "InstGroupDocumenter_add_content indexed instructions lines =
     add_name_lines indexed (sort (map inst_name instructions)) lines"

section \<open>Example data\<close>

definition example_index :: index where
  "example_index =
     [(''iadd'', (''langref'', ''inst'')), (''i32'', (''types'', ''type'')),
      (''isub'', (''langref'', ''inst''))]"

definition example_other :: index where
  "example_other =
     [(''iadd'', (''arith'', ''inst'')), (''b1'', (''types'', ''type'')),
      (''imul'', (''arith'', ''inst''))]"

definition example_self :: clif_object where
  "example_self = \<lparr>objtype = ''inst'', names = [], docname = ''arith'', lineno = 7\<rparr>"

definition example_state :: directive_state where
  "example_state =
     \<lparr>document_ids = {''inst-isub''}, inv = example_index, reported = [],
      node = \<lparr>sig_names = [], sig_ids = [], sig_first = None\<rparr>, index_entries = []\<rparr>"

definition example_doc2path :: "string \<Rightarrow> string" where
  "example_doc2path d = d @ ''.rst''"

definition example_refnode :: "unit \<Rightarrow> string \<Rightarrow> string \<Rightarrow> string \<Rightarrow> string \<Rightarrow> string \<Rightarrow>
    string \<times> string \<times> string \<times> string \<times> string" where
  "example_refnode builder fromdocname todocname targetid child title =
     (fromdocname, todocname, targetid, child, title)"

fun contains_text :: "string \<Rightarrow> string \<Rightarrow> bool" where
  \<comment> \<open>the first string occurs in the second\<close>
  "contains_text p [] = (p = [])"
| "contains_text p (c # cs) = (take (length p) (c # cs) = p \<or> contains_text p cs)"

definition example_call :: instruction where
  "example_call =
     \<lparr>inst_name = ''call'',
      ins = [\<lparr>op_name = ''FN'', kind_name = ''func_ref''\<rparr>,
             \<lparr>op_name = ''args'', kind_name = ''variable_args''\<rparr>],
      outs = [\<lparr>op_name = ''rvals'', kind_name = ''variable_args''\<rparr>]\<rparr>"

definition example_outs :: "(params \<times> string \<times> string) option" where
  "example_outs = Some ((''v0'', [('''', '' '', ''v1'')]), '' '', '' '')"

definition example_ins :: "(string \<times> params) option" where
  "example_ins = Some ('' '', (''op0'', [('''', '' '', ''op1'')]))"

section \<open>Properties of the index\<close>

lemma has_key_iff: "has_key k d \<longleftrightarrow> k \<in> fst ` set d"
  by (simp add: has_key_def map_of_eq_None_iff)

lemma example_index_inv: "dict_inv example_index"
  by (simp add: dict_inv_def example_index_def)

lemma example_other_inv: "dict_inv example_other"
  by (simp add: dict_inv_def example_other_def)

subsection \<open>Registration\<close>



text \<open>
  C9. When the target name (object type, \<open>-\<close>, name) is already an id of the document,
  \<open>add_target_and_index\<close> leaves the objects index as it is and reports no warning; and
  since a registration enters the target name among the ids, a second call for the same
  object type and name, after any first call, changes neither.
\<close>

theorem add_target_and_index_known_target:
  "(objtype self @ ''-'' @ name \<in> document_ids st \<longrightarrow>
      inv (add_target_and_index get_index_text doc2path self name st) = inv st \<and>
      reported (add_target_and_index get_index_text doc2path self name st) = reported st)
   \<and> (objtype self' = objtype self \<longrightarrow>
      inv (add_target_and_index get_index_text' doc2path' self' name
            (add_target_and_index get_index_text doc2path self name st)) =
        inv (add_target_and_index get_index_text doc2path self name st) \<and>
      reported (add_target_and_index get_index_text' doc2path' self' name
            (add_target_and_index get_index_text doc2path self name st)) =
        reported (add_target_and_index get_index_text doc2path self name st))"
  by (simp add: add_target_and_index_def register_target_def Let_def split: option.splits)

theorem add_target_and_index_known_target_witness:
  "objtype example_self @ ''-'' @ ''isub'' \<in> document_ids example_state
   \<and> objtype example_self = objtype example_self
   \<and> inv (add_target_and_index ClifInst_get_index_text example_doc2path
             example_self ''isub'' example_state) = inv example_state
   \<and> reported (add_target_and_index ClifInst_get_index_text example_doc2path
             example_self ''isub'' example_state) = reported example_state"
proof -
  have h1: "objtype example_self @ ''-'' @ ''isub'' \<in> document_ids example_state"
    by (simp add: example_self_def example_state_def)
  note t = add_target_and_index_known_target
    [of example_self "''isub''" example_state ClifInst_get_index_text example_doc2path]
  from mp [OF conjunct1 [OF t] h1] h1 show ?thesis
    by blast
qed

subsection \<open>Resolution\<close>

text \<open>
  C6. \<open>resolve_xref\<close> returns \<open>None\<close> exactly when the target is no key of the objects
  index, and \<open>resolve_any_xref\<close> returns the empty list exactly then; for a key with the
  entry (document, object type), \<open>resolve_xref\<close> returns the reference node made for that
  document and the target id object type, \<open>-\<close>, name, and \<open>resolve_any_xref\<close> returns the
  one-element list with that same reference node.
\<close>

theorem resolve_xref_lookup:
  "(resolve_xref make_refnode objs fromdocname builder target contnode = None
      \<longleftrightarrow> \<not> has_key target objs)
   \<and> (resolve_any_xref make_refnode role_for_objtype objs fromdocname builder target contnode = []
      \<longleftrightarrow> \<not> has_key target objs)
   \<and> (\<forall>doc typ. map_of objs target = Some (doc, typ) \<longrightarrow>
        resolve_xref make_refnode objs fromdocname builder target contnode =
          Some (make_refnode builder fromdocname doc (typ @ ''-'' @ target) contnode target) \<and>
        resolve_any_xref make_refnode role_for_objtype objs fromdocname builder target contnode =
          [(''clif:'' @ role_for_objtype typ,
            make_refnode builder fromdocname doc (typ @ ''-'' @ target) contnode target)])"
  by (auto simp: resolve_xref_def resolve_any_xref_def has_key_def split: option.splits)

theorem resolve_xref_lookup_witness:
  "map_of example_index ''i32'' = Some (''types'', ''type'')
   \<and> resolve_xref example_refnode example_index ''langref'' () ''i32'' ''i32'' =
       Some (''langref'', ''types'', ''type-i32'', ''i32'', ''i32'')
   \<and> resolve_any_xref example_refnode id example_index ''langref'' () ''i32'' ''i32'' =
       [(''clif:type'', ''langref'', ''types'', ''type-i32'', ''i32'', ''i32'')]
   \<and> \<not> has_key ''f64'' example_index
   \<and> resolve_xref example_refnode example_index ''langref'' () ''f64'' ''f64'' = None"
proof -
  have h: "map_of example_index ''i32'' = Some (''types'', ''type'')"
    by (simp add: example_index_def)
  note t = resolve_xref_lookup
    [of example_refnode example_index "''langref''" "()" "''i32''" "''i32''" id]
  note u = resolve_xref_lookup
    [of example_refnode example_index "''langref''" "()" "''f64''" "''f64''" id]
  have n: "\<not> has_key ''f64'' example_index"
    by (simp add: has_key_def example_index_def)
  from t h have
    "resolve_xref example_refnode example_index ''langref'' () ''i32'' ''i32'' =
       Some (example_refnode () ''langref'' ''types'' (''type'' @ ''-'' @ ''i32'') ''i32'' ''i32'')"
    "resolve_any_xref example_refnode id example_index ''langref'' () ''i32'' ''i32'' =
       [(''clif:'' @ id ''type'',
         example_refnode () ''langref'' ''types'' (''type'' @ ''-'' @ ''i32'') ''i32'' ''i32'')]"
    by blast+
  moreover from u n have
    "resolve_xref example_refnode example_index ''langref'' () ''f64'' ''f64'' = None"
    by blast
  ultimately show ?thesis using h n
    by (simp add: example_refnode_def)
qed

subsection \<open>Merging and clearing\<close>

lemma merge_domaindata_map_of:
  "distinct (map fst other) \<Longrightarrow>
   map_of (merge_domaindata docnames other objs) k =
     (case map_of other k of
        Some (fn, ot) \<Rightarrow> if fn \<in> set docnames then Some (fn, ot) else map_of objs k
      | None \<Rightarrow> map_of objs k)"
proof (induction docnames other objs rule: merge_domaindata.induct)
  case (1 docnames objs)
  then show ?case by simp
next
  case (2 docnames fullname fn objtype other objs)
  from 2(3) have dist: "distinct (map fst other)" and nk: "map_of other fullname = None"
    by (auto simp: map_of_eq_None_iff)
  show ?case
  proof (cases "fn \<in> set docnames")
    case True
    show ?thesis using 2(1)[OF True dist] True nk
      by (cases "k = fullname") (auto simp: update_conv' split: option.splits)
  next
    case False
    show ?thesis using 2(2)[OF False dist] False nk
      by (cases "k = fullname") simp_all
  qed
qed

lemma merge_domaindata_distinct:
  "distinct (map fst objs) \<Longrightarrow> distinct (map fst (merge_domaindata docnames other objs))"
  by (induction docnames other objs rule: merge_domaindata.induct) (auto simp: distinct_update)

text \<open>
  C7. After \<open>merge_domaindata\<close>, a name is bound to the entry of the other index when that
  entry's defining document is among the given document names, and it is bound as before
  (or not at all) otherwise: entries of the other index for other documents are ignored,
  and entries no copied entry overrides are unchanged. The result is again a dictionary.
\<close>

theorem merge_domaindata_entries:
  assumes "dict_inv other"
  shows "map_of (merge_domaindata docnames other objs) fullname =
           (case map_of other fullname of
              Some (fn, typ) \<Rightarrow>
                if fn \<in> set docnames then Some (fn, typ) else map_of objs fullname
            | None \<Rightarrow> map_of objs fullname)
       \<and> (dict_inv objs \<longrightarrow> dict_inv (merge_domaindata docnames other objs))"
  using assms unfolding dict_inv_def
  by (simp add: merge_domaindata_map_of merge_domaindata_distinct)

theorem merge_domaindata_entries_witness:
  "dict_inv example_other \<and> dict_inv example_index
   \<and> merge_domaindata [''arith''] example_other example_index =
       [(''iadd'', (''arith'', ''inst'')), (''i32'', (''types'', ''type'')),
        (''isub'', (''langref'', ''inst'')), (''imul'', (''arith'', ''inst''))]
   \<and> map_of (merge_domaindata [''arith''] example_other example_index) ''b1'' = None
   \<and> dict_inv (merge_domaindata [''arith''] example_other example_index)"
proof -
  note t = merge_domaindata_entries
    [OF example_other_inv, of "[''arith'']" example_index "''b1''"]
  have e: "merge_domaindata [''arith''] example_other example_index =
       [(''iadd'', (''arith'', ''inst'')), (''i32'', (''types'', ''type'')),
        (''isub'', (''langref'', ''inst'')), (''imul'', (''arith'', ''inst''))]"
    by (simp add: example_other_def example_index_def)
  have b: "map_of (merge_domaindata [''arith''] example_other example_index) ''b1'' = None"
    unfolding conjunct1 [OF t] by (simp add: example_other_def example_index_def)
  have d: "dict_inv (merge_domaindata [''arith''] example_other example_index)"
    by (rule mp [OF conjunct2 [OF t] example_index_inv])
  show ?thesis
    by (rule conjI [OF example_other_inv conjI [OF example_index_inv conjI [OF e conjI [OF b d]]]])
qed

lemma delete_distinct_eq:
  "distinct (map fst objs) \<Longrightarrow> (k, v) \<in> set objs \<Longrightarrow>
   AList.delete k objs = filter (\<lambda>e. e \<noteq> (k, v)) objs"
  unfolding AList.delete_eq
  by (rule filter_cong) (auto simp: eq_key_imp_eq_value)

lemma clear_doc_loop_filter:
  "distinct (map fst items) \<Longrightarrow> distinct (map fst objs) \<Longrightarrow> set items \<subseteq> set objs \<Longrightarrow>
   clear_doc_loop d items objs =
     Inr (filter (\<lambda>e. \<not> (e \<in> set items \<and> fst (snd e) = d)) objs)"
proof (induction d items objs rule: clear_doc_loop.induct)
  case (1 docname objs)
  then show ?case by simp
next
  case (2 docname fullname fn l items objs)
  show ?case
  proof (cases "fn = docname")
    case True
    from 2(4,5) have del:
      "AList.delete fullname objs = filter (\<lambda>e. e \<noteq> (fullname, (fn, l))) objs"
      by (intro delete_distinct_eq) auto
    have hk: "has_key fullname objs"
      using 2(5) by (force simp: has_key_iff)
    have sub: "set items \<subseteq> set (AList.delete fullname objs)"
      using 2(3,5) unfolding del by (auto simp: image_iff)
    have d2: "distinct (map fst (AList.delete fullname objs))"
      using 2(4) by (simp add: distinct_delete)
    have "clear_doc_loop docname items (AList.delete fullname objs) =
        Inr (filter (\<lambda>e. \<not> (e \<in> set items \<and> fst (snd e) = docname))
               (AList.delete fullname objs))"
      using 2(1)[OF True, of "AList.delete fullname objs"] hk 2(3) d2 sub
      by (simp add: py_del_def)
    also have "\<dots> =
        Inr (filter (\<lambda>e. \<not> (e \<in> set ((fullname, (fn, l)) # items) \<and> fst (snd e) = docname))
               objs)"
      unfolding del using True by (auto intro: filter_cong)
    finally show ?thesis
      using True hk by (simp add: py_del_def)
  next
    case False
    then show ?thesis
      using 2 by (auto intro: filter_cong)
  qed
qed

lemma clear_doc_filter:
  "dict_inv objs \<Longrightarrow> clear_doc d objs = Inr (filter (\<lambda>(k, fn, l). fn \<noteq> d) objs)"
  unfolding clear_doc_def dict_inv_def
  by (subst clear_doc_loop_filter) (auto intro: filter_cong)

text \<open>
  C8. On a dictionary, \<open>clear_doc\<close> raises nothing and returns the index without the
  entries whose defining document is the given one, every other entry being kept, in
  place; clearing the result for the same document again returns it unchanged.
\<close>

theorem clear_doc_removes_document:
  assumes "dict_inv objs"
  shows "clear_doc d objs = Inr (filter (\<lambda>(fullname, fn, l). fn \<noteq> d) objs)
       \<and> clear_doc d (filter (\<lambda>(fullname, fn, l). fn \<noteq> d) objs) =
           Inr (filter (\<lambda>(fullname, fn, l). fn \<noteq> d) objs)"
proof -
  have "dict_inv (filter (\<lambda>(fullname, fn, l). fn \<noteq> d) objs)"
    using assms by (simp add: dict_inv_def distinct_map_filter)
  from clear_doc_filter[OF this, of d] clear_doc_filter[OF assms, of d]
  show ?thesis by (simp add: case_prod_unfold)
qed

theorem clear_doc_removes_document_witness:
  "dict_inv example_index
   \<and> clear_doc ''langref'' example_index = Inr [(''i32'', (''types'', ''type''))]
   \<and> clear_doc ''langref'' [(''i32'', (''types'', ''type''))] =
       Inr [(''i32'', (''types'', ''type''))]"
proof -
  have f: "filter (\<lambda>(fullname, fn, l). fn \<noteq> ''langref'') example_index =
      [(''i32'', (''types'', ''type''))]"
    by (simp add: example_index_def)
  show ?thesis
    using clear_doc_removes_document [OF example_index_inv, of "''langref''"] example_index_inv
    unfolding f by (rule_tac conjI)
qed

section \<open>Properties of the signatures\<close>

subsection \<open>Type signatures\<close>

text \<open>
  C1. The claim: the string is cut at the placeholders \<^verbatim>\<open>%X\<close>, \<open>X\<close> one of A to Z, and only
  a placeholder becomes an emphasis node and \<^verbatim>\<open>\w+\<close>; every other non-empty piece becomes
  a \<open>desc_name\<close> node and its escaped text. At the name \<^verbatim>\<open>%a\<close> the split finds no
  placeholder and returns the name as its one piece, yet \<open>parse_type\<close>, which recognises a
  placeholder by its length 2 and its first character, appends the emphasis node \<open>a\<close>
  and returns \<^verbatim>\<open>\w+\<close>, whatever \<open>escape\<close> is.
\<close>

theorem parse_type_lowercase_percent:
  "typevar_split ''%a'' = [''%a'']
   \<and> parse_type escape ''%a'' [] = ([backslash, CHR ''w'', CHR ''+''], [Emphasis ''a''])
   \<and> parse_type escape ''%a'' [] \<noteq> (escape ''%a'', [DescName ''%a''])"
  by (simp add: parse_type_def typevar_split_def is_upper_def)

lemma parse_type_placeholder_example:
  "parse_type escape ''i%Bx'' [] =
     (escape ''i'' @ [backslash, CHR ''w'', CHR ''+''] @ escape ''x'',
      [DescName ''i'', Emphasis ''B'', DescName ''x''])"
  by (simp add: parse_type_def typevar_split_def is_upper_def)

text \<open>
  C2. The claim: the returned pattern matches, as a whole, exactly the strings got from
  the signature by putting word characters for its placeholders, so that a signature with
  no placeholder matches itself only. The name \<^verbatim>\<open>%a\<close> has no placeholder, and the pattern
  returned for it matches \<open>b\<close> and does not match \<^verbatim>\<open>%a\<close>.
\<close>

theorem parse_type_pattern_lowercase_percent:
  "typevar_split ''%a'' = [''%a'']
   \<and> re_fullmatch (fst (parse_type escape ''%a'' [])) ''b''
   \<and> \<not> re_fullmatch (fst (parse_type escape ''%a'' [])) ''%a''"
  by (simp add: parse_type_def typevar_split_def is_upper_def re_fullmatch_def backslash_def
      is_word_def)

subsection \<open>Instruction signatures\<close>

lemma not_space_sep [simp]: "\<not> is_space CHR '',''" "\<not> is_space CHR ''=''"
  by (simp_all add: is_space_def)

lemma identD:
  assumes "ident s"
  shows "s \<noteq> []" "\<not> is_space (hd s)" "\<not> is_space (last s)"
    "CHR '','' \<notin> set s" "CHR ''='' \<notin> set s" "\<forall>c \<in> set s. \<not> is_space c"
  using assms by (auto simp: ident_def list_all_iff)

lemma blankD:
  assumes "blank w"
  shows "CHR '','' \<notin> set w" "CHR ''='' \<notin> set w" "\<forall>c \<in> set w. is_space c"
  using assms by (auto simp: blank_def list_all_iff)

lemma dropWhile_blank: "blank w \<Longrightarrow> dropWhile is_space (w @ s) = dropWhile is_space s"
  by (simp add: blank_def list_all_iff dropWhile_append)

lemma dropWhile_space_id: "s \<noteq> [] \<Longrightarrow> \<not> is_space (hd s) \<Longrightarrow> dropWhile is_space s = s"
  by (cases s) simp_all

lemma rstrip_space_blank: "blank w \<Longrightarrow> rstrip_space (s @ w) = rstrip_space s"
  by (simp add: rstrip_space_def blank_def list_all_iff dropWhile_append)

lemma rstrip_space_id: "s \<noteq> [] \<Longrightarrow> \<not> is_space (last s) \<Longrightarrow> rstrip_space s = s"
  by (cases s rule: rev_cases) (simp_all add: rstrip_space_def)

lemma takeWhile_sep: "c \<notin> set a \<Longrightarrow> takeWhile (\<lambda>x. x \<noteq> c) (a @ c # b) = a"
  by (induction a) auto

lemma dropWhile_sep: "c \<notin> set a \<Longrightarrow> dropWhile (\<lambda>x. x \<noteq> c) (a @ c # b) = c # b"
  by (induction a) auto

lemma params_text_props:
  assumes "params_ok ps"
  shows "params_text ps \<noteq> []" "\<not> is_space (hd (params_text ps))"
    "\<not> is_space (last (params_text ps))" "CHR ''='' \<notin> set (params_text ps)"
proof -
  obtain p m where ps: "ps = (p, m)" by (cases ps)
  from assms ps have ip: "ident p" by simp
  show "params_text ps \<noteq> []" using identD(1)[OF ip] ps by simp
  show "\<not> is_space (hd (params_text ps))" using identD(1,2)[OF ip] ps by simp
  show "CHR ''='' \<notin> set (params_text ps)"
    using assms ps by (auto simp: list_all_iff dest: identD(5) blankD(2))
  show "\<not> is_space (last (params_text ps))"
  proof (cases m rule: rev_cases)
    case Nil
    then show ?thesis using identD(1,3)[OF ip] ps by simp
  next
    case (snoc m' t)
    obtain w1 w2 q where t: "t = (w1, w2, q)" by (cases t)
    from assms ps snoc t have "ident q" by simp
    from identD(1,3)[OF this] show ?thesis using ps snoc t by simp
  qed
qed

lemma sep_comma_split_ident: "ident p \<Longrightarrow> sep_comma_split p = [p]"
  by (subst sep_comma_split.simps) (simp add: identD(4))

lemma sep_comma_split_params:
  "params_ok (p, m) \<Longrightarrow> sep_comma_split (params_text (p, m)) = params_names (p, m)"
proof (induction m arbitrary: p)
  case Nil
  then show ?case by (simp add: sep_comma_split_ident)
next
  case (Cons t m)
  obtain w1 w2 q where t: "t = (w1, w2, q)" by (cases t)
  from Cons.prems t have ip: "ident p" and b1: "blank w1" and b2: "blank w2"
    and ok: "params_ok (q, m)" by simp_all
  let ?tail = "params_text (q, m)"
  have whole: "params_text (p, t # m) = p @ w1 @ CHR '','' # w2 @ ?tail"
    using t by simp
  have nc: "CHR '','' \<notin> set (p @ w1)"
    using identD(4)[OF ip] blankD(1)[OF b1] by simp
  have tw: "takeWhile (\<lambda>x. x \<noteq> CHR '','') (p @ w1 @ CHR '','' # w2 @ ?tail) = p @ w1"
    using takeWhile_sep[OF nc, of "w2 @ ?tail"] by simp
  have dw: "dropWhile (\<lambda>x. x \<noteq> CHR '','') (p @ w1 @ CHR '','' # w2 @ ?tail) =
      CHR '','' # w2 @ ?tail"
    using dropWhile_sep[OF nc, of "w2 @ ?tail"] by simp
  have inn: "CHR '','' \<in> set (p @ w1 @ CHR '','' # w2 @ ?tail)"
    by simp
  have r: "rstrip_space (p @ w1) = p"
    using rstrip_space_blank[OF b1] rstrip_space_id[OF identD(1,3)[OF ip]] by simp
  have d: "dropWhile is_space (w2 @ ?tail) = ?tail"
    using dropWhile_blank[OF b2] dropWhile_space_id[OF params_text_props(1,2)[OF ok]] by simp
  show ?case
    unfolding whole
    by (subst sep_comma_split.simps)
      (simp only: inn if_True tw dw r d list.sel Cons.IH[OF ok] t params_names.simps list.map
         prod.case)
qed

lemma parse_params_loop_Suc:
  "parse_params_loop (Suc i) ps signode =
     signode @ concat (map (\<lambda>p. [Text '', '', Emphasis p]) ps)"
  by (induction ps arbitrary: i signode) simp_all

lemma emphasised_Cons:
  "emphasised (p # ps) = Emphasis p # concat (map (\<lambda>p. [Text '', '', Emphasis p]) ps)"
  by (induction ps arbitrary: p) simp_all

lemma parse_params_loop_0: "ps \<noteq> [] \<Longrightarrow> parse_params_loop 0 ps signode = signode @ emphasised ps"
  by (cases ps) (simp_all add: parse_params_loop_Suc emphasised_Cons)

lemma parse_params_text:
  assumes "params_ok ps"
  shows "parse_params (params_text ps) signode = signode @ emphasised (params_names ps)"
proof -
  obtain p m where ps: "ps = (p, m)" by (cases ps)
  have "sep_comma_split (params_text ps) = params_names ps"
    using assms unfolding ps by (rule sep_comma_split_params)
  moreover have "params_names ps \<noteq> []"
    unfolding ps by simp
  ultimately show ?thesis
    unfolding parse_params_def by (simp add: parse_params_loop_0)
qed

lemma split_ws1_name:
  assumes "ident name"
  shows "split_ws1 name = [name]"
proof -
  have s1: "dropWhile is_space name = name"
    using identD(1,2)[OF assms] by (rule dropWhile_space_id)
  have tw: "takeWhile (\<lambda>c. \<not> is_space c) name = name"
    using identD(6)[OF assms] by (simp add: takeWhile_eq_all_conv)
  have dw: "dropWhile (\<lambda>c. \<not> is_space c) name = []"
    using identD(6)[OF assms] by (simp add: dropWhile_eq_Nil_conv)
  show ?thesis
    using identD(1)[OF assms] by (simp add: split_ws1_def s1 tw dw Let_def)
qed

lemma split_ws1_name_ins:
  assumes "ident name" "w3 \<noteq> []" "blank w3" "params_ok ps"
  shows "split_ws1 (name @ w3 @ params_text ps) = [name, params_text ps]"
proof -
  let ?s = "name @ w3 @ params_text ps"
  have s1: "dropWhile is_space ?s = ?s"
    using identD(1,2)[OF assms(1)] by (intro dropWhile_space_id) simp_all
  have sp: "is_space (hd w3)" using assms(2,3) by (cases w3) (simp_all add: blank_def)
  have tw: "takeWhile (\<lambda>c. \<not> is_space c) ?s = name"
    using identD(6)[OF assms(1)] sp assms(2)
    by (cases w3) (simp_all add: takeWhile_append2 takeWhile_tail)
  have dw: "dropWhile (\<lambda>c. \<not> is_space c) ?s = w3 @ params_text ps"
    using identD(6)[OF assms(1)] sp assms(2)
    by (cases w3) (simp_all add: dropWhile_append2 dropWhile_append3)
  have d: "dropWhile is_space (w3 @ params_text ps) = params_text ps"
    using dropWhile_blank[OF assms(3)] dropWhile_space_id[OF params_text_props(1,2)[OF assms(4)]]
    by simp
  show ?thesis
    using identD(1)[OF assms(1)] params_text_props(1)[OF assms(4)]
    by (simp add: split_ws1_def s1 tw dw d Let_def del: params_text.simps)
qed


lemma split_once_none: "c \<notin> set s \<Longrightarrow> split_once c s = None"
  by (simp add: split_once_def)

lemma ident_no_equal_tail:
  assumes "ident name" "case ins_part of None \<Rightarrow> True | Some (w3, ps) \<Rightarrow> w3 \<noteq> [] \<and> blank w3 \<and> params_ok ps"
  shows "CHR ''='' \<notin> set (name @ (case ins_part of None \<Rightarrow> [] | Some (w3, ps) \<Rightarrow> w3 @ params_text ps))"
  using assms identD(5)[OF assms(1)]
  by (auto split: option.splits dest: blankD(2) params_text_props(4) simp del: params_text.simps)

lemma split_ws1_tail:
  assumes "ident name" "case ins_part of None \<Rightarrow> True | Some (w3, ps) \<Rightarrow> w3 \<noteq> [] \<and> blank w3 \<and> params_ok ps"
  shows "split_ws1 (name @ (case ins_part of None \<Rightarrow> [] | Some (w3, ps) \<Rightarrow> w3 @ params_text ps)) =
     name # (case ins_part of None \<Rightarrow> [] | Some (w3, ps) \<Rightarrow> [params_text ps])"
  using assms
  by (auto split: option.splits simp: split_ws1_name split_ws1_name_ins simp del: params_text.simps)

lemma handle_name_part:
  assumes "ident name" "case ins_part of None \<Rightarrow> True | Some (w3, ps) \<Rightarrow> w3 \<noteq> [] \<and> blank w3 \<and> params_ok ps"
    and "split_ws1 nm = name # (case ins_part of None \<Rightarrow> [] | Some (w3, ps) \<Rightarrow> [params_text ps])"
  shows "(case split_ws1 nm of
            [] \<Rightarrow> Inl IndexError
          | name2 # rest \<Rightarrow>
              (let signode2 = sn @ [DescName name2]
               in if length (split_ws1 nm) = 2
                  then Inr (name2, parse_params (split_ws1 nm ! 1) (signode2 @ [Text '' '']))
                  else Inr (name2, signode2))) =
     Inr (name, sn @ [DescName name] @
       (case ins_part of None \<Rightarrow> [] | Some (w3, ps) \<Rightarrow> Text '' '' # emphasised (params_names ps)))"
  unfolding assms(3) using assms(2)
  by (auto split: option.splits simp: parse_params_text Let_def simp del: params_text.simps params_names.simps)

text \<open>
  C3. For a signature of the form outs = name ins (identifiers separated by commas, any
  whitespace around the commas and the equals sign, whitespace between the name and the
  ins), \<open>handle_signature\<close> returns the name and appends to the output node: the outs as
  emphasis nodes joined by \<open>, \<close>, the text \<open> = \<close>, the name as a \<open>desc_name\<close> node, a space,
  and the ins as emphasis nodes joined by \<open>, \<close>; without the outs part the outs and the
  \<open> = \<close> are absent, without the ins part the space and the ins are absent.
\<close>

theorem handle_signature_renders:
  assumes "signature_ok outs_part name ins_part"
  shows "handle_signature (signature_text outs_part name ins_part) signode =
           Inr (name, signode @ signature_nodes outs_part name ins_part)"
proof -
  let ?tail = "case ins_part of None \<Rightarrow> [] | Some (w3, ps) \<Rightarrow> w3 @ params_text ps"
  from assms have nm: "ident name"
    and io: "case ins_part of None \<Rightarrow> True | Some (w3, ps) \<Rightarrow> w3 \<noteq> [] \<and> blank w3 \<and> params_ok ps"
    by (simp_all add: signature_ok_def)
  note ws = split_ws1_tail[OF nm io]
  show ?thesis
  proof (cases outs_part)
    case None
    have "sep_equal_split1 (name @ ?tail) = [name @ ?tail]"
      using ident_no_equal_tail[OF nm io] by (simp add: sep_equal_split1_def split_once_none)
    then show ?thesis
      using handle_name_part[OF nm io ws, of signode] None
      by (simp add: handle_signature_def signature_text_def signature_nodes_def Let_def)
  next
    case (Some t)
    obtain ps w1 w2 where t: "t = (ps, w1, w2)" by (cases t)
    from assms Some t have ok: "params_ok ps" and b1: "blank w1" and b2: "blank w2"
      by (simp_all add: signature_ok_def)
    have ne: "CHR ''='' \<notin> set (params_text ps @ w1)"
      using params_text_props(4)[OF ok] blankD(2)[OF b1] by simp
    have tw: "takeWhile (\<lambda>x. x \<noteq> CHR ''='') (params_text ps @ w1 @ CHR ''='' # w2 @ name @ ?tail) =
        params_text ps @ w1"
      using takeWhile_sep[OF ne, of "w2 @ name @ ?tail"] by simp
    have dw: "dropWhile (\<lambda>x. x \<noteq> CHR ''='') (params_text ps @ w1 @ CHR ''='' # w2 @ name @ ?tail) =
        CHR ''='' # w2 @ name @ ?tail"
      using dropWhile_sep[OF ne, of "w2 @ name @ ?tail"] by simp
    have r: "rstrip_space (params_text ps @ w1) = params_text ps"
      using rstrip_space_blank[OF b1] rstrip_space_id[OF params_text_props(1,3)[OF ok]] by simp
    have d: "dropWhile is_space (w2 @ name @ ?tail) = name @ ?tail"
      using dropWhile_blank[OF b2, of "name @ ?tail"] identD(1,2)[OF nm]
      by (simp add: dropWhile_space_id)
    have sp: "sep_equal_split1 (params_text ps @ w1 @ CHR ''='' # w2 @ name @ ?tail) =
        [params_text ps, name @ ?tail]"
      by (simp add: sep_equal_split1_def split_once_def tw dw r d del: params_text.simps)
    show ?thesis
      using handle_name_part[OF nm io ws, of "signode @ emphasised (params_names ps) @ [Text '' = '']"]
        Some t
      by (simp add: handle_signature_def signature_text_def signature_nodes_def Let_def sp
          parse_params_text[OF ok] del: params_text.simps params_names.simps)
  qed
qed

theorem handle_signature_renders_witness:
  "signature_ok example_outs ''inst'' example_ins
   \<and> signature_text example_outs ''inst'' example_ins = ''v0, v1 = inst op0, op1''
   \<and> handle_signature ''v0, v1 = inst op0, op1'' [] =
       Inr (''inst'',
         [Emphasis ''v0'', Text '', '', Emphasis ''v1'', Text '' = '', DescName ''inst'',
          Text '' '', Emphasis ''op0'', Text '', '', Emphasis ''op1''])"
proof -
  have h: "signature_ok example_outs ''inst'' example_ins"
    by (simp add: signature_ok_def example_outs_def example_ins_def ident_def blank_def
        is_space_def)
  have e: "signature_text example_outs ''inst'' example_ins = ''v0, v1 = inst op0, op1''"
    by (simp add: signature_text_def example_outs_def example_ins_def)
  have n: "signature_nodes example_outs ''inst'' example_ins =
      [Emphasis ''v0'', Text '', '', Emphasis ''v1'', Text '' = '', DescName ''inst'',
       Text '' '', Emphasis ''op0'', Text '', '', Emphasis ''op1'']"
    by (simp add: signature_nodes_def example_outs_def example_ins_def)
  note t = handle_signature_renders [OF h, of "[]"]
  have r: "handle_signature ''v0, v1 = inst op0, op1'' [] =
       Inr (''inst'',
         [Emphasis ''v0'', Text '', '', Emphasis ''v1'', Text '' = '', DescName ''inst'',
          Text '' '', Emphasis ''op0'', Text '', '', Emphasis ''op1''])"
    using t unfolding e n by simp
  show ?thesis
    by (rule conjI [OF h conjI [OF e r]])
qed

text \<open>
  The separators 0x1C to 0x1F, next line and no-break space are whitespace as well: they
  end the name and are absorbed around a comma, and a string that holds one is no
  identifier.
\<close>

lemma handle_signature_separator_example:
  "handle_signature [CHR ''f'', CHR ''o'', CHR ''o'', CHR 0x1F, CHR ''b'', CHR 0xA0, CHR '','',
      CHR 0x85, CHR ''c''] [] =
     Inr (''foo'', [DescName ''foo'', Text '' '', Emphasis ''b'', Text '', '', Emphasis ''c''])"
  by code_simp

lemma ident_separator_example:
  "\<not> ident [CHR ''f'', CHR ''o'', CHR ''o'', CHR 0x1F, CHR ''b'']"
  by (simp add: ident_def is_space_def)

section \<open>Properties of the documenters\<close>

subsection \<open>format_signature\<close>

lemma py_join_Cons: "py_join sep (x # xs) = x @ concat (map (\<lambda>y. sep @ y) xs)"
  by (induction xs arbitrary: x) simp_all

lemma format_more_ins_append:
  "format_more_ins (xs @ ys) sig = format_more_ins ys (format_more_ins xs sig)"
  by (induction xs arbitrary: sig) simp_all

lemma format_more_ins_plain:
  "\<forall>op \<in> set ops. kind_name op \<noteq> ''variable_args'' \<Longrightarrow>
   format_more_ins ops sig = sig @ concat (map (\<lambda>y. '', '' @ y) (map op_name ops))"
  by (induction ops arbitrary: sig) simp_all

text \<open>
  C4, as the claim has it: a variadic last input that is not the first is rendered as
  its name followed by \<^verbatim>\<open>(...)\<close>. For a call with the inputs \<open>FN\<close> and the variadic \<open>args\<close>
  the signature is \<^verbatim>\<open>rvals = call FN(args...)\<close>, in which \<^verbatim>\<open>args(...)\<close> does not occur.
\<close>

theorem format_signature_variadic_counterexample:
  "format_signature example_call = ''rvals = call FN(args...)''
   \<and> \<not> contains_text ''args(...)'' (format_signature example_call)"
  by (simp add: format_signature_def example_call_def)

text \<open>
  C4, amended. When no input before the last is variadic: the outputs, if any, precede
  the instruction name, joined by \<open>, \<close> and followed by \<open> = \<close>; the inputs follow the name
  after a space; non-variadic inputs are joined by \<open>, \<close>; a variadic last input is rendered
  as its name and \<^verbatim>\<open>...\<close> when it is the first input, and otherwise as \<^verbatim>\<open>(\<close>, its name and
  \<^verbatim>\<open>...)\<close> put directly after the inputs before it.
\<close>

theorem format_signature_variadic_last:
  assumes "\<forall>op \<in> set (butlast (ins inst)). kind_name op \<noteq> ''variable_args''"
  shows "format_signature inst =
     (if outs inst = [] then [] else py_join '', '' (map op_name (outs inst)) @ '' = '') @
     inst_name inst @
     (if ins inst = [] then []
      else if kind_name (last (ins inst)) \<noteq> ''variable_args''
      then '' '' @ py_join '', '' (map op_name (ins inst))
      else if length (ins inst) = 1
      then '' '' @ op_name (last (ins inst)) @ ''...''
      else '' '' @ py_join '', '' (map op_name (butlast (ins inst))) @
           ''('' @ op_name (last (ins inst)) @ ''...)'')"
proof (cases "ins inst")
  case Nil
  then show ?thesis by (simp add: format_signature_def)
next
  case (Cons op rest)
  show ?thesis
  proof (cases rest rule: rev_cases)
    case Nil
    with Cons show ?thesis by (simp add: format_signature_def)
  next
    case (snoc mid l)
    from assms Cons snoc have
      op: "kind_name op \<noteq> ''variable_args''" and
      mid: "\<forall>x \<in> set mid. kind_name x \<noteq> ''variable_args''"
      by (simp_all add: butlast_append)
    have bl: "butlast (ins inst) = op # mid" and la: "last (ins inst) = l"
      using Cons snoc by (simp_all add: butlast_append)
    show ?thesis
      unfolding bl la
      using Cons snoc op
      by (simp add: format_signature_def format_more_ins_append
          format_more_ins_plain [OF mid] py_join_Cons)
  qed
qed

theorem format_signature_variadic_last_witness:
  "butlast (ins example_call) = [\<lparr>op_name = ''FN'', kind_name = ''func_ref''\<rparr>]
   \<and> ''func_ref'' \<noteq> ''variable_args''
   \<and> format_signature example_call = ''rvals = call FN(args...)''"
proof -
  have b: "butlast (ins example_call) = [\<lparr>op_name = ''FN'', kind_name = ''func_ref''\<rparr>]"
    by (simp add: example_call_def)
  have k: "''func_ref'' \<noteq> ''variable_args''"
    by simp
  have h: "\<forall>op \<in> set (butlast (ins example_call)). kind_name op \<noteq> ''variable_args''"
    unfolding b by simp
  have r: "format_signature example_call = ''rvals = call FN(args...)''"
    unfolding format_signature_variadic_last [OF h]
    by (simp add: example_call_def)
  show ?thesis
    by (rule conjI [OF b conjI [OF k r]])
qed

subsection \<open>InstGroupDocumenter.add_content\<close>

lemma add_name_lines_map:
  "add_name_lines indexed ns lines =
     lines @ map (\<lambda>name. if has_key name indexed then '':clif:inst:`'' @ name @ ''`''
                          else ''``'' @ name @ ''``'') ns"
  by (induction ns arbitrary: lines) (simp_all add: add_line_def)

text \<open>
  C10. \<open>add_content\<close> adds, after the lines already there, one line for each instruction
  of the group, for the names in ascending order (the sorted list is ordered and has the
  same names as often as the group has them): the role \<^verbatim>\<open>:clif:inst:\<close> with the name in
  backquotes when the name is a key of the objects index, the name between double
  backquotes otherwise.
\<close>

theorem add_content_sorted_lines:
  "InstGroupDocumenter_add_content indexed instructions lines =
     lines @ map (\<lambda>name. if has_key name indexed then '':clif:inst:`'' @ name @ ''`''
                          else ''``'' @ name @ ''``'')
               (sort (map inst_name instructions))
   \<and> sorted (sort (map inst_name instructions))
   \<and> mset (sort (map inst_name instructions)) = mset (map inst_name instructions)
   \<and> length (InstGroupDocumenter_add_content indexed instructions lines) =
       length lines + length instructions"
  by (simp add: InstGroupDocumenter_add_content_def add_name_lines_map)


lemma add_content_example:
  "InstGroupDocumenter_add_content example_index
     [\<lparr>inst_name = ''isub'', ins = [], outs = []\<rparr>, \<lparr>inst_name = ''band'', ins = [], outs = []\<rparr>,
      \<lparr>inst_name = ''iadd'', ins = [], outs = []\<rparr>] [] =
     [''``band``'', '':clif:inst:`iadd`'', '':clif:inst:`isub`'']"
  by (simp add: InstGroupDocumenter_add_content_def add_line_def has_key_def example_index_def)

end
